theory Spec2Isabelle
  imports Complex_Main
begin

section \<open>Values of the program\<close>

text \<open>
  A pandas timestamp is counted in whole days (the input has one row per day), so
  \<open>timedelta(days=1)\<close> is \<open>+ 1\<close> and the daily frequency of \<open>pd.date_range\<close> steps
  by 1.
\<close>

type_synonym date = int

datatype error = ValueError | IndexError | InvalidInputError | FitError

text \<open>
  A numpy float64 is a real number or one of the three special values. The rounding of
  a finite result is not part of the model: \<open>Fin r\<close> stands for the float nearest to
  \<open>r\<close>, and sums, products and logarithms of finite values are those of the reals.
  What numpy does on the special values (no exception, the value propagates) and where
  \<open>np.exp\<close> leaves the range of float64 is written out.
\<close>

datatype npfloat = Fin real | PInf | NInf | NaN

fun np_neg :: "npfloat \<Rightarrow> npfloat" where
  "np_neg (Fin r) = Fin (- r)"
| "np_neg PInf = NInf"
| "np_neg NInf = PInf"
| "np_neg NaN = NaN"

fun np_add :: "npfloat \<Rightarrow> npfloat \<Rightarrow> npfloat" where
  "np_add (Fin r) (Fin s) = Fin (r + s)"
| "np_add NaN _ = NaN"
| "np_add _ NaN = NaN"
| "np_add PInf NInf = NaN"
| "np_add NInf PInf = NaN"
| "np_add PInf _ = PInf"
| "np_add _ PInf = PInf"
| "np_add NInf _ = NInf"
| "np_add _ NInf = NInf"

definition np_sub :: "npfloat \<Rightarrow> npfloat \<Rightarrow> npfloat" where
  "np_sub u v = np_add u (np_neg v)"

definition inf_of_sign :: "real \<Rightarrow> npfloat" where
  "inf_of_sign r = (if r = 0 then NaN else if 0 < r then PInf else NInf)"

fun np_mul :: "npfloat \<Rightarrow> npfloat \<Rightarrow> npfloat" where
  "np_mul (Fin r) (Fin s) = Fin (r * s)"
| "np_mul NaN _ = NaN"
| "np_mul _ NaN = NaN"
| "np_mul (Fin r) PInf = inf_of_sign r"
| "np_mul (Fin r) NInf = inf_of_sign (- r)"
| "np_mul PInf (Fin s) = inf_of_sign s"
| "np_mul NInf (Fin s) = inf_of_sign (- s)"
| "np_mul PInf PInf = PInf"
| "np_mul NInf NInf = PInf"
| "np_mul PInf NInf = NInf"
| "np_mul NInf PInf = NInf"

text \<open>\<open>np.log\<close>: \<open>-inf\<close> at 0 and \<open>nan\<close> below 0 (a warning, no exception).\<close>

fun np_log :: "npfloat \<Rightarrow> npfloat" where
  "np_log (Fin r) = (if 0 < r then Fin (ln r) else if r = 0 then NInf else NaN)"
| "np_log PInf = PInf"
| "np_log NInf = NaN"
| "np_log NaN = NaN"

text \<open>
  \<open>np.exp\<close>: the result is \<open>0.0\<close> when the exponential is at most \<open>2^-1075\<close>, half
  the least positive float64, that is for arguments up to \<open>-1075 * ln 2\<close> (about
  -745.13); it is \<open>inf\<close> when the exponential is at least \<open>(2^54 - 1) * 2^970\<close>, the
  greatest float64 plus half its last place, that is for arguments from
  \<open>970 * ln 2 + ln (2^54 - 1)\<close> (about 709.78).
\<close>

definition EXP_UNDERFLOW :: real where
  "EXP_UNDERFLOW = - (1075 * ln 2)"

definition EXP_OVERFLOW :: real where
  "EXP_OVERFLOW = 970 * ln 2 + ln (2 ^ 54 - 1)"

fun np_exp :: "npfloat \<Rightarrow> npfloat" where
  "np_exp (Fin r) =
    (if r \<le> EXP_UNDERFLOW then Fin 0
     else if EXP_OVERFLOW \<le> r then PInf
     else Fin (exp r))"
| "np_exp PInf = PInf"
| "np_exp NInf = Fin 0"
| "np_exp NaN = NaN"

text \<open>\<open>np.isfinite\<close>.\<close>

fun np_isfinite :: "npfloat \<Rightarrow> bool" where
  "np_isfinite (Fin r) = True"
| "np_isfinite PInf = False"
| "np_isfinite NInf = False"
| "np_isfinite NaN = False"

text \<open>The comparisons of IEEE floats: every comparison with \<open>nan\<close> is false.\<close>

fun np_less :: "npfloat \<Rightarrow> npfloat \<Rightarrow> bool" where
  "np_less (Fin r) (Fin s) = (r < s)"
| "np_less NaN _ = False"
| "np_less _ NaN = False"
| "np_less _ NInf = False"
| "np_less PInf _ = False"
| "np_less NInf _ = True"
| "np_less _ PInf = True"

definition np_le :: "npfloat \<Rightarrow> npfloat \<Rightarrow> bool" where
  "np_le u v = (u \<noteq> NaN \<and> v \<noteq> NaN \<and> (u = v \<or> np_less u v))"

text \<open>Python's \<open>xs[i]\<close> for an index \<open>i \<ge> 0\<close>: IndexError past the end.\<close>

definition py_index :: "'a list \<Rightarrow> nat \<Rightarrow> error + 'a" where
  "py_index xs i = (if i < length xs then Inr (xs ! i) else Inl IndexError)"

text \<open>\<open>np.arange(start, stop)\<close> on integers.\<close>

definition arange :: "int \<Rightarrow> int \<Rightarrow> int list" where
  "arange start stop = [start..stop - 1]"

section \<open>plot.py\<close>

definition COLORS_LABELS :: "(string \<times> string) list" where
  "COLORS_LABELS =
    [(''#c00200'', ''Maximum bubble territory''),
     (''#d64018'', ''Sell. Seriously, SELL!''),
     (''#ed7d31'', ''FOMO Intensifies''),
     (''#f6b45a'', ''Is this a bubble?''),
     (''#feeb84'', ''HODL!''),
     (''#b1d580'', ''Still cheap''),
     (''#63be7b'', ''Accumulate''),
     (''#54989f'', ''BUY!''),
     (''#4472c4'', ''Fire sale!'')]"

definition BAND_WIDTH :: real where
  "BAND_WIDTH = 0.3"

definition NUM_BANDS :: nat where
  "NUM_BANDS = 9"

definition EXTEND_MONTHS :: nat where
  "EXTEND_MONTHS = 9"

text \<open>
  The data frame \<open>raw_data\<close>: its rows, each with the columns \<open>Date\<close> and \<open>Value\<close>.
\<close>

type_synonym dataframe = "(date \<times> real) list"

definition col_Date :: "dataframe \<Rightarrow> date list" where
  "col_Date raw_data = map fst raw_data"

definition col_Value :: "dataframe \<Rightarrow> real list" where
  "col_Value raw_data = map snd raw_data"

text \<open>\<open>Series.max()\<close>: \<open>NaT\<close> (here \<open>None\<close>) on an empty column.\<close>

definition series_max :: "date list \<Rightarrow> date option" where
  "series_max ds = (if ds = [] then None else Some (Max (set ds)))"

text \<open>
  \<open>pd.date_range(start=..., periods=...)\<close> at its default daily frequency, for a
  count \<open>periods\<close> of days. It raises ValueError when \<open>start\<close> is \<open>NaT\<close>.
\<close>

definition date_range :: "date option \<Rightarrow> nat \<Rightarrow> error + date list" where
  "date_range start periods =
    (case start of
       None \<Rightarrow> Inl ValueError
     | Some s \<Rightarrow> Inr (map (\<lambda>k. s + int k) [0..<periods]))"

text \<open>
  \<open>months\<close> is a count of months; the one call of \<open>extend_dates\<close>, in
  \<open>plot_rainbow\<close>, leaves it at its default \<open>EXTEND_MONTHS\<close>.
\<close>

definition extend_dates :: "dataframe \<Rightarrow> nat \<Rightarrow> error + date list" where
  "extend_dates raw_data months =
    (let last_date = series_max (col_Date raw_data) in
     case date_range (map_option (\<lambda>d. d + 1) last_date) (months * 30) of
       Inl e \<Rightarrow> Inl e
     | Inr extended_dates \<Rightarrow> Inr (col_Date raw_data @ extended_dates))"

text \<open>
  Modelled from the spec: the value of \<open>log_func\<close> of data.py, which is not among the
  sources, at one index. The spec gives the fitted curve as \<open>a*ln(x+b)+c\<close>.
\<close>

definition fitted :: "npfloat \<times> npfloat \<times> npfloat \<Rightarrow> int \<Rightarrow> npfloat" where
  "fitted popt x_val =
    (case popt of (a, b, c) \<Rightarrow>
       np_add (np_mul a (np_log (np_add (Fin (real_of_int x_val)) b))) c)"

text \<open>
  Modelled from the spec: \<open>log_func\<close> of data.py on a numpy array of indices, the
  fitted curve at each entry.
\<close>

definition log_func :: "int list \<Rightarrow> npfloat \<times> npfloat \<times> npfloat \<Rightarrow> npfloat list" where
  "log_func xdata popt = map (fitted popt) xdata"

text \<open>
  A figure is the list of its traces, in the order \<open>fig.add_trace\<close> appended them. A
  trace keeps the arguments \<open>go.Scatter\<close> was given; an argument left out is \<open>None\<close>.
\<close>

record scatter =
  scatter_x :: "date list"
  scatter_y :: "npfloat list"
  scatter_fill :: "string option"
  scatter_mode :: string
  scatter_line_color :: "string option"
  scatter_line_width :: int
  scatter_showlegend :: "bool option"
  scatter_fillcolor :: "string option"
  scatter_name :: "string option"

type_synonym figure = "scatter list"

text \<open>
  The body of the loop of \<open>plot_rainbow\<close> for one \<open>i\<close>: the two bounds, the colour and
  the label, then the trace of the upper bound and the trace of the lower bound.
\<close>

definition lower_bound :: "npfloat list \<Rightarrow> real \<Rightarrow> nat \<Rightarrow> npfloat list" where
  "lower_bound extended_fitted_ydata band_width i =
    (let i_decrease = 1.5 in
     map (\<lambda>v. np_exp (np_sub (np_add v (Fin ((real i - i_decrease) * band_width)))
                              (Fin band_width)))
         extended_fitted_ydata)"

definition upper_bound :: "npfloat list \<Rightarrow> real \<Rightarrow> nat \<Rightarrow> npfloat list" where
  "upper_bound extended_fitted_ydata band_width i =
    (let i_decrease = 1.5 in
     map (\<lambda>v. np_exp (np_add v (Fin ((real i - i_decrease) * band_width))))
         extended_fitted_ydata)"

definition upper_trace :: "date list \<Rightarrow> npfloat list \<Rightarrow> scatter" where
  "upper_trace extended_dates ub =
    \<lparr>scatter_x = extended_dates, scatter_y = ub, scatter_fill = None,
     scatter_mode = ''lines'', scatter_line_color = None, scatter_line_width = 0,
     scatter_showlegend = Some False, scatter_fillcolor = None, scatter_name = None\<rparr>"

definition lower_trace :: "date list \<Rightarrow> npfloat list \<Rightarrow> string \<Rightarrow> string \<Rightarrow> scatter" where
  "lower_trace extended_dates lb color label =
    \<lparr>scatter_x = extended_dates, scatter_y = lb, scatter_fill = Some ''tonexty'',
     scatter_mode = ''lines'', scatter_line_color = None, scatter_line_width = 0,
     scatter_showlegend = None, scatter_fillcolor = Some color, scatter_name = Some label\<rparr>"

fun plot_rainbow_loop ::
  "figure \<Rightarrow> date list \<Rightarrow> npfloat list \<Rightarrow> real \<Rightarrow> nat list \<Rightarrow> error + figure" where
  "plot_rainbow_loop fig extended_dates ydata band_width [] = Inr fig"
| "plot_rainbow_loop fig extended_dates ydata band_width (i # rest) =
    (case py_index (rev (map fst COLORS_LABELS)) i of
       Inl e \<Rightarrow> Inl e
     | Inr color \<Rightarrow>
        (case py_index (rev (map snd COLORS_LABELS)) i of
           Inl e \<Rightarrow> Inl e
         | Inr label \<Rightarrow>
             plot_rainbow_loop
               (fig @ [upper_trace extended_dates (upper_bound ydata band_width i),
                       lower_trace extended_dates (lower_bound ydata band_width i) color label])
               extended_dates ydata band_width rest))"

definition plot_rainbow ::
  "figure \<Rightarrow> dataframe \<Rightarrow> npfloat \<times> npfloat \<times> npfloat \<Rightarrow> nat \<Rightarrow> real \<Rightarrow> error + figure" where
  "plot_rainbow fig raw_data popt num_bands band_width =
    (case extend_dates raw_data EXTEND_MONTHS of
       Inl e \<Rightarrow> Inl e
     | Inr extended_dates \<Rightarrow>
         (let extended_xdata = arange 1 (int (length extended_dates) + 1);
              extended_fitted_ydata = log_func extended_xdata popt
          in plot_rainbow_loop fig extended_dates extended_fitted_ydata band_width
               [0..<num_bands]))"

definition plot_price :: "figure \<Rightarrow> dataframe \<Rightarrow> figure" where
  "plot_price fig raw_data =
    fig @ [\<lparr>scatter_x = col_Date raw_data, scatter_y = map Fin (col_Value raw_data),
            scatter_fill = None, scatter_mode = ''lines'',
            scatter_line_color = Some ''black'', scatter_line_width = 2,
            scatter_showlegend = None, scatter_fillcolor = None,
            scatter_name = Some ''BTC Price''\<rparr>]"

text \<open>
  \<open>create_plot\<close> starts from the empty figure of \<open>make_subplots()\<close>. The layout, the
  axes and the halving lines add no trace and raise nothing; they are left out.
\<close>

definition create_plot :: "dataframe \<Rightarrow> npfloat \<times> npfloat \<times> npfloat \<Rightarrow> error + figure" where
  "create_plot raw_data popt =
    (case plot_rainbow [] raw_data popt NUM_BANDS BAND_WIDTH of
       Inl e \<Rightarrow> Inl e
     | Inr fig \<Rightarrow> Inr (plot_price fig raw_data))"

text \<open>
  Band \<open>i\<close> of a figure that \<open>plot_rainbow\<close> filled from empty: iteration \<open>i\<close> appended
  the trace of its upper bound at position \<open>2 * i\<close> and the trace of its lower bound,
  which carries the colour and the label, at position \<open>2 * i + 1\<close>.
\<close>

definition band_upper :: "figure \<Rightarrow> nat \<Rightarrow> npfloat list" where
  "band_upper fig i = scatter_y (fig ! (2 * i))"

definition band_lower :: "figure \<Rightarrow> nat \<Rightarrow> npfloat list" where
  "band_lower fig i = scatter_y (fig ! (2 * i + 1))"

definition band_color :: "figure \<Rightarrow> nat \<Rightarrow> string option" where
  "band_color fig i = scatter_fillcolor (fig ! (2 * i + 1))"

definition band_label :: "figure \<Rightarrow> nat \<Rightarrow> string option" where
  "band_label fig i = scatter_name (fig ! (2 * i + 1))"


text \<open>The two traces that one iteration of the loop appends, once its look-ups succeed.\<close>

definition band_traces :: "date list \<Rightarrow> npfloat list \<Rightarrow> real \<Rightarrow> nat \<Rightarrow> scatter list" where
  "band_traces extended_dates ydata band_width i =
    [upper_trace extended_dates (upper_bound ydata band_width i),
     lower_trace extended_dates (lower_bound ydata band_width i)
       (rev (map fst COLORS_LABELS) ! i) (rev (map snd COLORS_LABELS) ! i)]"

section \<open>data.py and main.py\<close>

text \<open>
  The curve fitter and \<open>get_data\<close> belong to data.py, which is not among the sources;
  they follow the spec. The least-squares solver is a parameter: it takes the index and
  the logarithms of the values, and \<open>None\<close> is its failure to converge.
\<close>

type_synonym solver = "int list \<Rightarrow> real list \<Rightarrow> (npfloat \<times> npfloat \<times> npfloat) option"

text \<open>
  Modelled from the spec: the fewest points of a series that a three-parameter fit
  accepts.
\<close>

definition MIN_POINTS :: nat where
  "MIN_POINTS = 3"

text \<open>
  Modelled from the spec: the index of the fit, \<open>x_i = i + 1\<close> for the \<open>i\<close>-th point.
\<close>

definition fit_xdata :: "dataframe \<Rightarrow> int list" where
  "fit_xdata series = arange 1 (int (length series) + 1)"

text \<open>
  Modelled from the spec: the curve fitter. It fails with InvalidInputError on an empty
  series, on one with fewer than \<open>MIN_POINTS\<close> points and on one with a value
  \<open>\<le> 0\<close>; otherwise it fits \<open>ln(value)\<close> over the index, and a solver that does not
  converge is a numerical error.
\<close>

definition fit :: "solver \<Rightarrow> dataframe \<Rightarrow> error + npfloat \<times> npfloat \<times> npfloat" where
  "fit solve series =
    (if series = [] \<or> length series < MIN_POINTS \<or> list_ex (\<lambda>v. v \<le> 0) (col_Value series)
     then Inl InvalidInputError
     else case solve (fit_xdata series) (map ln (col_Value series)) of
            None \<Rightarrow> Inl FitError
          | Some popt \<Rightarrow> Inr popt)"

text \<open>
  Modelled from the spec: \<open>get_data\<close>, on the rows of the CSV file. It returns the
  rows and the fitted parameters.
\<close>

definition get_data ::
  "solver \<Rightarrow> dataframe \<Rightarrow> error + dataframe \<times> npfloat \<times> npfloat \<times> npfloat" where
  "get_data solve csv =
    (case fit solve csv of Inl e \<Rightarrow> Inl e | Inr popt \<Rightarrow> Inr (csv, popt))"

text \<open>
  \<open>main\<close> of main.py, on the rows of the CSV file. It has no exception handler: an
  error of \<open>get_data\<close> or of \<open>create_plot\<close> ends the call. Writing or showing the
  figure is left out.
\<close>

definition main :: "solver \<Rightarrow> dataframe \<Rightarrow> error + figure" where
  "main solve csv =
    (case get_data solve csv of
       Inl e \<Rightarrow> Inl e
     | Inr (raw_data, popt) \<Rightarrow> create_plot raw_data popt)"


section \<open>The range of np.exp\<close>

declare np_exp.simps(1) [simp del]

lemma ln2_lower: "(0.6::real) < ln 2"
proof -
  have "1 + (- 0.2) \<le> exp (- 0.2 :: real)"
    by (rule exp_ge_add_one_self)
  then have "(0.8::real) \<le> 1 / exp 0.2"
    by (simp add: exp_minus inverse_eq_divide)
  then have e: "exp (0.2::real) \<le> 1.25"
    by (simp add: field_simps)
  have "exp (0.6::real) = exp (real 3 * 0.2)"
    by simp
  also have "\<dots> = exp 0.2 ^ 3"
    by (rule exp_of_nat_mult)
  also have "\<dots> \<le> 1.25 ^ 3"
    using e by (intro power_mono) simp_all
  also have "\<dots> < (2::real)"
    by (simp add: power3_eq_cube)
  finally have "exp (0.6::real) < exp (ln 2)"
    by simp
  then show ?thesis
    by (simp only: exp_less_cancel_iff)
qed

lemma ln2_upper: "ln 2 < (0.928::real)"
proof -
  have "1 + 0.928 + 0.928\<^sup>2 / 2 \<le> exp (0.928::real)"
    by (rule exp_lower_Taylor_quadratic) simp
  then have "exp (ln 2) < exp (0.928::real)"
    by (simp add: power2_eq_square)
  then show ?thesis
    by (simp only: exp_less_cancel_iff)
qed

lemma EXP_UNDERFLOW_bounds: "- 998 < EXP_UNDERFLOW" "EXP_UNDERFLOW < - 602"
  using ln2_lower ln2_upper by (simp_all add: EXP_UNDERFLOW_def)

lemma EXP_OVERFLOW_bound: "602 < EXP_OVERFLOW"
proof -
  have "53 * ln 2 = ln ((2::real) ^ 53)"
    by (simp only: ln_realpow of_nat_numeral)
  also have "\<dots> \<le> ln (2 ^ 54 - 1)"
    by (subst ln_le_cancel_iff) simp_all
  finally have "53 * ln 2 \<le> ln ((2::real) ^ 54 - 1)" .
  then show ?thesis
    using ln2_lower by (simp add: EXP_OVERFLOW_def)
qed

lemma np_exp_in_range:
  assumes "- 602 \<le> r" and "r \<le> 602"
  shows "np_exp (Fin r) = Fin (exp r)"
  using assms EXP_UNDERFLOW_bounds(2) EXP_OVERFLOW_bound by (simp add: np_exp.simps(1))

lemma np_exp_underflow:
  assumes "r \<le> - 998"
  shows "np_exp (Fin r) = Fin 0"
  using assms EXP_UNDERFLOW_bounds(1) by (simp add: np_exp.simps(1))

lemma np_exp_mono:
  assumes "r \<le> s"
  shows "np_le (np_exp (Fin r)) (np_exp (Fin s))"
  using assms EXP_UNDERFLOW_bounds(2) EXP_OVERFLOW_bound
  by (auto simp: np_exp.simps(1) np_le_def)

lemma np_exp_nonneg: "np_le (Fin 0) (np_exp (Fin r))"
  by (simp add: np_exp.simps(1) np_le_def)

section \<open>Date extension\<close>

lemma extend_dates_nonempty:
  assumes "raw_data \<noteq> []"
  shows "extend_dates raw_data months =
    Inr (col_Date raw_data @
         map (\<lambda>k. Max (set (col_Date raw_data)) + 1 + int k) [0..<months * 30])"
  using assms by (simp add: extend_dates_def series_max_def date_range_def col_Date_def)

lemma extend_dates_empty: "extend_dates [] months = Inl ValueError"
  by (simp add: extend_dates_def series_max_def date_range_def col_Date_def)

lemma sorted_Max_last:
  fixes ds :: "date list"
  assumes "sorted ds" and "ds \<noteq> []"
  shows "Max (set ds) = last ds"
proof (rule Max_eqI)
  show "finite (set ds)" by simp
  show "last ds \<in> set ds" using assms(2) by simp
  fix d assume "d \<in> set ds"
  then obtain k where k: "k < length ds" "ds ! k = d"
    by (auto simp: in_set_conv_nth)
  have "ds ! k \<le> ds ! (length ds - 1)"
    using assms k by (intro sorted_nth_mono) auto
  then show "d \<le> last ds"
    using k assms(2) by (simp add: last_conv_nth)
qed

text \<open>
  C6. For a non-empty input series, \<open>extend_dates\<close> with \<open>months = 9\<close> returns the
  original dates followed by exactly 270 new dates; the first new date is the day after
  the latest original date (which is the last one of a chronologically ordered series),
  and each new date is one day after the one before it.
\<close>

theorem extend_dates_270:
  assumes "raw_data \<noteq> []"
  shows "\<exists>ext. extend_dates raw_data 9 = Inr (col_Date raw_data @ ext)
           \<and> length ext = 270
           \<and> ext ! 0 = Max (set (col_Date raw_data)) + 1
           \<and> (sorted (col_Date raw_data) \<longrightarrow> ext ! 0 = last (col_Date raw_data) + 1)
           \<and> (\<forall>k. k + 1 < 270 \<longrightarrow> ext ! (k + 1) = ext ! k + 1)"
proof -
  let ?ds = "col_Date raw_data"
  let ?ext = "map (\<lambda>k. Max (set ?ds) + 1 + int k) [0..<270]"
  have ne: "?ds \<noteq> []" using assms by (simp add: col_Date_def)
  have "extend_dates raw_data 9 = Inr (?ds @ ?ext)"
    using extend_dates_nonempty [OF assms, of 9] by simp
  moreover have "length ?ext = 270" by simp
  moreover have "?ext ! 0 = Max (set ?ds) + 1" by simp
  moreover have "sorted ?ds \<longrightarrow> ?ext ! 0 = last ?ds + 1"
    using sorted_Max_last [of ?ds] ne by simp
  moreover have "\<forall>k. k + 1 < 270 \<longrightarrow> ?ext ! (k + 1) = ?ext ! k + 1"
    by simp
  ultimately show ?thesis by blast
qed

theorem extend_dates_270_witness:
  "\<exists>ext. extend_dates [(10, 5), (11, 6)] 9 = Inr (col_Date [(10, 5), (11, 6)] @ ext)
      \<and> length ext = 270
      \<and> ext ! 0 = 12
      \<and> ext ! 1 = 13"
proof -
  have ne: "[(10::int, 5::real), (11, 6)] \<noteq> []" by simp
  from extend_dates_270 [OF ne] obtain ext where
    e: "extend_dates [(10, 5), (11, 6)] 9 = Inr (col_Date [(10, 5), (11, 6)] @ ext)"
       "length ext = 270"
       "ext ! 0 = Max (set (col_Date [(10, 5), (11, 6)])) + 1"
       "\<forall>k. k + 1 < 270 \<longrightarrow> ext ! (k + 1) = ext ! k + 1"
    by blast
  have "ext ! 0 = 12" using e(3) by (simp add: col_Date_def)
  moreover have "ext ! (0 + 1) = ext ! 0 + 1" using e(4) by simp
  ultimately show ?thesis using e(1,2) by auto
qed

section \<open>The loop of plot_rainbow\<close>

lemma length_COLORS_LABELS: "length COLORS_LABELS = 9"
  by (simp add: COLORS_LABELS_def)

lemma plot_rainbow_loop_traces:
  assumes "\<forall>i\<in>set idxs. i < 9"
  shows "plot_rainbow_loop fig ds ys bw idxs = Inr (fig @ concat (map (band_traces ds ys bw) idxs))"
  using assms
proof (induction idxs arbitrary: fig)
  case Nil
  then show ?case by simp
next
  case (Cons i rest)
  then have i: "i < 9" and rest: "\<forall>j\<in>set rest. j < 9" by simp_all
  show ?case
    using i Cons.IH [OF rest]
    by (simp add: py_index_def length_COLORS_LABELS band_traces_def)
qed

lemma plot_rainbow_loop_IndexError:
  assumes "9 \<le> i"
  shows "plot_rainbow_loop fig ds ys bw (i # rest) = Inl IndexError"
  using assms by (simp add: py_index_def length_COLORS_LABELS)

lemma length_concat_pairs:
  assumes "\<And>j. length (f j) = 2"
  shows "length (concat (map f [0..<n])) = 2 * n"
  by (induction n) (simp_all add: assms)

lemma nth_concat_pairs:
  assumes "\<And>j. length (f j) = 2" and "i < n" and "r < 2"
  shows "concat (map f [0..<n]) ! (2 * i + r) = f i ! r"
  using assms(2)
proof (induction n)
  case 0
  then show ?case by simp
next
  case (Suc n)
  have len: "length (concat (map f [0..<n])) = 2 * n"
    by (rule length_concat_pairs) (rule assms(1))
  show ?case
  proof (cases "i < n")
    case True
    then have "2 * i + r < 2 * n" using assms(3) by simp
    then show ?thesis using Suc.IH [OF True] len by (simp add: nth_append)
  next
    case False
    then have "i = n" using Suc.prems by simp
    then show ?thesis using len assms(3) by (simp add: nth_append)
  qed
qed

lemma length_arange: "length (arange 1 (int n + 1)) = n"
  by (simp add: arange_def)

lemma nth_arange: "k < n \<Longrightarrow> arange 1 (int n + 1) ! k = int k + 1"
  by (simp add: arange_def)

lemma plot_rainbow_traces:
  assumes "raw_data \<noteq> []" and "num_bands \<le> 9"
  shows "\<exists>ext. length ext = 270 \<and>
     extend_dates raw_data EXTEND_MONTHS = Inr (col_Date raw_data @ ext) \<and>
     plot_rainbow fig raw_data popt num_bands bw =
       Inr (fig @ concat (map (band_traces (col_Date raw_data @ ext)
              (log_func (arange 1 (int (length raw_data + 270) + 1)) popt) bw) [0..<num_bands]))"
proof -
  let ?ext = "map (\<lambda>k. Max (set (col_Date raw_data)) + 1 + int k) [0..<270]"
  have e: "extend_dates raw_data EXTEND_MONTHS = Inr (col_Date raw_data @ ?ext)"
    using extend_dates_nonempty [OF assms(1), of 9] by (simp add: EXTEND_MONTHS_def)
  have idx: "\<forall>i\<in>set [0..<num_bands]. i < 9" using assms(2) by simp
  have "plot_rainbow fig raw_data popt num_bands bw =
       Inr (fig @ concat (map (band_traces (col_Date raw_data @ ?ext)
              (log_func (arange 1 (int (length raw_data + 270) + 1)) popt) bw) [0..<num_bands]))"
    unfolding plot_rainbow_def e
    by (simp add: plot_rainbow_loop_traces [OF idx] col_Date_def Let_def)
  then show ?thesis using e by (intro exI [of _ ?ext]) simp
qed

lemma length_band_traces: "length (band_traces ds ys bw j) = 2"
  by (simp add: band_traces_def)

lemma plot_rainbow_bands:
  assumes "raw_data \<noteq> []"
  shows "\<exists>fig ext. length ext = 270
     \<and> extend_dates raw_data EXTEND_MONTHS = Inr (col_Date raw_data @ ext)
     \<and> plot_rainbow [] raw_data popt NUM_BANDS bw = Inr fig
     \<and> length fig = 18
     \<and> (\<forall>i<9. fig ! (2 * i) =
            upper_trace (col_Date raw_data @ ext)
              (upper_bound (log_func (arange 1 (int (length raw_data + 270) + 1)) popt) bw i)
          \<and> fig ! (2 * i + 1) =
            lower_trace (col_Date raw_data @ ext)
              (lower_bound (log_func (arange 1 (int (length raw_data + 270) + 1)) popt) bw i)
              (rev (map fst COLORS_LABELS) ! i) (rev (map snd COLORS_LABELS) ! i))"
proof -
  let ?ys = "log_func (arange 1 (int (length raw_data + 270) + 1)) popt"
  from plot_rainbow_traces [OF assms, of 9 "[]" popt bw] obtain ext where
    ext: "length ext = 270"
      "extend_dates raw_data EXTEND_MONTHS = Inr (col_Date raw_data @ ext)"
      "plot_rainbow [] raw_data popt 9 bw =
         Inr (concat (map (band_traces (col_Date raw_data @ ext) ?ys bw) [0..<9]))"
    by auto
  let ?f = "band_traces (col_Date raw_data @ ext) ?ys bw"
  let ?fig = "concat (map ?f [0..<9])"
  have len: "length ?fig = 18"
    using length_concat_pairs [of ?f 9] length_band_traces by simp
  have nth: "?fig ! (2 * i + r) = ?f i ! r" if "i < 9" "r < 2" for i r
    using nth_concat_pairs [of ?f i 9 r] length_band_traces that by simp
  have "\<forall>i<9. ?fig ! (2 * i) = ?f i ! 0 \<and> ?fig ! (2 * i + 1) = ?f i ! 1"
    using nth [of _ 0] nth [of _ 1] by simp
  then have "\<forall>i<9. ?fig ! (2 * i) = upper_trace (col_Date raw_data @ ext) (upper_bound ?ys bw i)
      \<and> ?fig ! (2 * i + 1) = lower_trace (col_Date raw_data @ ext) (lower_bound ?ys bw i)
              (rev (map fst COLORS_LABELS) ! i) (rev (map snd COLORS_LABELS) ! i)"
    by (simp add: band_traces_def)
  with ext len show ?thesis
    unfolding NUM_BANDS_def by blast
qed

lemma length_log_func: "length (log_func xs popt) = length xs"
  by (simp add: log_func_def)

lemma nth_ydata:
  assumes "k < n"
  shows "log_func (arange 1 (int n + 1)) popt ! k = fitted popt (int k + 1)"
  using assms by (simp add: log_func_def length_arange nth_arange)

lemma nth_upper_bound:
  assumes "k < length ys"
  shows "upper_bound ys bw i ! k = np_exp (np_add (ys ! k) (Fin ((real i - 1.5) * bw)))"
  using assms by (simp add: upper_bound_def)

lemma nth_lower_bound:
  assumes "k < length ys"
  shows "lower_bound ys bw i ! k =
    np_exp (np_sub (np_add (ys ! k) (Fin ((real i - 1.5) * bw))) (Fin bw))"
  using assms by (simp add: lower_bound_def)

lemma plot_rainbow_values:
  assumes "raw_data \<noteq> []"
  shows "\<exists>fig. plot_rainbow [] raw_data popt NUM_BANDS bw = Inr fig
     \<and> (\<forall>i<9. length (band_upper fig i) = length raw_data + 270
             \<and> length (band_lower fig i) = length raw_data + 270
             \<and> (\<forall>k<length raw_data + 270.
                  band_upper fig i ! k =
                    np_exp (np_add (fitted popt (int k + 1)) (Fin ((real i - 1.5) * bw)))
                \<and> band_lower fig i ! k =
                    np_exp (np_sub (np_add (fitted popt (int k + 1)) (Fin ((real i - 1.5) * bw)))
                                   (Fin bw))))"
proof -
  let ?n = "length raw_data + 270"
  let ?ys = "log_func (arange 1 (int ?n + 1)) popt"
  from plot_rainbow_bands [OF assms, of popt bw] obtain fig ext where
    fig: "plot_rainbow [] raw_data popt NUM_BANDS bw = Inr fig"
      "\<forall>i<9. fig ! (2 * i) = upper_trace (col_Date raw_data @ ext) (upper_bound ?ys bw i)
          \<and> fig ! (2 * i + 1) = lower_trace (col_Date raw_data @ ext) (lower_bound ?ys bw i)
              (rev (map fst COLORS_LABELS) ! i) (rev (map snd COLORS_LABELS) ! i)"
    by blast
  have len: "length ?ys = ?n"
    by (simp only: length_log_func length_arange)
  have up: "band_upper fig i = upper_bound ?ys bw i" if "i < 9" for i
    using fig(2) that by (simp add: band_upper_def upper_trace_def)
  have lo: "band_lower fig i = lower_bound ?ys bw i" if "i < 9" for i
    using fig(2) that by (simp add: band_lower_def lower_trace_def)
  have "length (upper_bound ?ys bw i) = ?n" "length (lower_bound ?ys bw i) = ?n" for i
    using len by (simp_all add: upper_bound_def lower_bound_def)
  moreover have "upper_bound ?ys bw i ! k =
      np_exp (np_add (fitted popt (int k + 1)) (Fin ((real i - 1.5) * bw)))"
    if "k < ?n" for i k
    using that len nth_upper_bound [of k ?ys bw i] nth_ydata [of k ?n popt] by simp
  moreover have "lower_bound ?ys bw i ! k =
      np_exp (np_sub (np_add (fitted popt (int k + 1)) (Fin ((real i - 1.5) * bw))) (Fin bw))"
    if "k < ?n" for i k
    using that len nth_lower_bound [of k ?ys bw i] nth_ydata [of k ?n popt] by simp
  ultimately show ?thesis
    using fig(1) up lo by (intro exI [of _ fig]) simp
qed

lemma np_sub_add_Fin: "np_sub (np_add v (Fin p)) (Fin q) = np_add v (Fin (p - q))"
  by (cases v) (simp_all add: np_sub_def)

lemma fitted_example: "fitted (Fin 1, Fin 0, Fin 0) 1 = Fin 0"
  by (simp add: fitted_def)

lemma offset_bounds:
  assumes "i < 9"
  shows "- 0.45 \<le> (real i - 1.5) * 0.3" and "(real i - 1.5) * 0.3 \<le> 1.95"
proof -
  have "real i \<le> 8" using assms by simp
  then show "- 0.45 \<le> (real i - 1.5) * 0.3" and "(real i - 1.5) * 0.3 \<le> 1.95"
    by (simp_all add: algebra_simps)
qed

lemma np_exp_band_in_range:
  assumes "i < 9" and "- 600 \<le> f" and "f \<le> 600"
  shows "np_exp (Fin (f + (real i - 1.5) * 0.3)) = Fin (exp (f + (real i - 1.5) * 0.3))"
    and "np_exp (Fin (f + (real i - 1.5) * 0.3 - 0.3)) =
         Fin (exp (f + (real i - 1.5) * 0.3 - 0.3))"
proof -
  define d where "d = (real i - 1.5) * 0.3"
  have b: "- 0.45 \<le> d" "d \<le> 1.95"
    using offset_bounds [OF assms(1)] by (simp_all add: d_def)
  have u: "np_exp (Fin (f + d)) = Fin (exp (f + d))"
    using b assms(2,3) by (intro np_exp_in_range) simp_all
  have l: "np_exp (Fin (f + d - 0.3)) = Fin (exp (f + d - 0.3))"
    using b assms(2,3) by (intro np_exp_in_range) simp_all
  show "np_exp (Fin (f + (real i - 1.5) * 0.3)) = Fin (exp (f + (real i - 1.5) * 0.3))"
    using u unfolding d_def .
  show "np_exp (Fin (f + (real i - 1.5) * 0.3 - 0.3)) =
         Fin (exp (f + (real i - 1.5) * 0.3 - 0.3))"
    using l unfolding d_def .
qed

text \<open>
  C1. For every fit parameter triple, every non-empty series and every band index
  \<open>i < 9\<close>, at every date index \<open>x\<close> from 1 to \<open>n + 270\<close> the upper bound of band \<open>i\<close>
  is \<open>exp(fitted(x) + (i - 1.5) * 0.3)\<close> and its lower bound is
  \<open>exp(fitted(x) + (i - 1.5) * 0.3 - 0.3)\<close>, where \<open>fitted(x) = a*ln(x+b)+c\<close>.
\<close>

theorem band_bounds_formula:
  assumes "raw_data \<noteq> []" and "i < 9"
    and "1 \<le> x" and "x \<le> int (length raw_data) + 270"
  shows "\<exists>fig. plot_rainbow [] raw_data (a, b, c) NUM_BANDS BAND_WIDTH = Inr fig
     \<and> fitted (a, b, c) x = np_add (np_mul a (np_log (np_add (Fin (real_of_int x)) b))) c
     \<and> band_upper fig i ! nat (x - 1) =
         np_exp (np_add (fitted (a, b, c) x) (Fin ((real i - 1.5) * 0.3)))
     \<and> band_lower fig i ! nat (x - 1) =
         np_exp (np_sub (np_add (fitted (a, b, c) x) (Fin ((real i - 1.5) * 0.3))) (Fin 0.3))
     \<and> (\<forall>f. fitted (a, b, c) x = Fin f \<longrightarrow>
           band_upper fig i ! nat (x - 1) = np_exp (Fin (f + (real i - 1.5) * 0.3))
         \<and> band_lower fig i ! nat (x - 1) = np_exp (Fin (f + (real i - 1.5) * 0.3 - 0.3)))
     \<and> (\<forall>f. fitted (a, b, c) x = Fin f \<and> - 600 \<le> f \<and> f \<le> 600 \<longrightarrow>
           band_upper fig i ! nat (x - 1) = Fin (exp (f + (real i - 1.5) * 0.3))
         \<and> band_lower fig i ! nat (x - 1) = Fin (exp (f + (real i - 1.5) * 0.3 - 0.3)))"
proof -
  from plot_rainbow_values [OF assms(1), of "(a, b, c)" BAND_WIDTH] obtain fig where
    fig: "plot_rainbow [] raw_data (a, b, c) NUM_BANDS BAND_WIDTH = Inr fig"
    and vals: "\<forall>i<9. \<forall>k<length raw_data + 270.
        band_upper fig i ! k =
          np_exp (np_add (fitted (a, b, c) (int k + 1)) (Fin ((real i - 1.5) * BAND_WIDTH)))
      \<and> band_lower fig i ! k =
          np_exp (np_sub (np_add (fitted (a, b, c) (int k + 1)) (Fin ((real i - 1.5) * BAND_WIDTH)))
                         (Fin BAND_WIDTH))"
    by blast
  have k: "nat (x - 1) < length raw_data + 270" "int (nat (x - 1)) + 1 = x"
    using assms(3,4) by simp_all
  have up: "band_upper fig i ! nat (x - 1) =
      np_exp (np_add (fitted (a, b, c) x) (Fin ((real i - 1.5) * 0.3)))"
    using vals assms(2) k by (simp add: BAND_WIDTH_def)
  have lo: "band_lower fig i ! nat (x - 1) =
      np_exp (np_sub (np_add (fitted (a, b, c) x) (Fin ((real i - 1.5) * 0.3))) (Fin 0.3))"
    using vals assms(2) k by (simp add: BAND_WIDTH_def)
  have fin: "\<forall>f. fitted (a, b, c) x = Fin f \<longrightarrow>
           band_upper fig i ! nat (x - 1) = np_exp (Fin (f + (real i - 1.5) * 0.3))
         \<and> band_lower fig i ! nat (x - 1) = np_exp (Fin (f + (real i - 1.5) * 0.3 - 0.3))"
    unfolding up lo by (simp add: np_sub_def)
  have rng: "\<forall>f. fitted (a, b, c) x = Fin f \<and> - 600 \<le> f \<and> f \<le> 600 \<longrightarrow>
           band_upper fig i ! nat (x - 1) = Fin (exp (f + (real i - 1.5) * 0.3))
         \<and> band_lower fig i ! nat (x - 1) = Fin (exp (f + (real i - 1.5) * 0.3 - 0.3))"
    using fin np_exp_band_in_range [OF assms(2)] by metis
  have "fitted (a, b, c) x = np_add (np_mul a (np_log (np_add (Fin (real_of_int x)) b))) c"
    by (simp add: fitted_def)
  with fig up lo fin rng show ?thesis by blast
qed

theorem band_bounds_formula_witness:
  "\<exists>fig. plot_rainbow [] [(0, 1)] (Fin 1, Fin 0, Fin 0) NUM_BANDS BAND_WIDTH = Inr fig
     \<and> band_upper fig 0 ! 0 = Fin (exp (- 0.45))
     \<and> band_lower fig 0 ! 0 = Fin (exp (- 0.75))"
proof -
  have h: "[(0::int, 1::real)] \<noteq> []" "(0::nat) < 9" "(1::int) \<le> 1"
    "(1::int) \<le> int (length [(0::int, 1::real)]) + 270"
    by simp_all
  from band_bounds_formula [OF h, of "Fin 1" "Fin 0" "Fin 0"] obtain fig where
    fig: "plot_rainbow [] [(0, 1)] (Fin 1, Fin 0, Fin 0) NUM_BANDS BAND_WIDTH = Inr fig"
    and rng: "\<forall>f. fitted (Fin 1, Fin 0, Fin 0) 1 = Fin f \<and> - 600 \<le> f \<and> f \<le> 600 \<longrightarrow>
           band_upper fig 0 ! nat (1 - 1) = Fin (exp (f + (real 0 - 1.5) * 0.3))
         \<and> band_lower fig 0 ! nat (1 - 1) = Fin (exp (f + (real 0 - 1.5) * 0.3 - 0.3))"
    by blast
  from rng fitted_example have "band_upper fig 0 ! 0 = Fin (exp (- 0.45))"
    "band_lower fig 0 ! 0 = Fin (exp (- 0.75))"
    by simp_all
  with fig show ?thesis by blast
qed

lemma np_le_exp_add:
  assumes "v \<noteq> NaN" and "p \<le> q"
  shows "np_le (np_exp (np_add v (Fin p))) (np_exp (np_add v (Fin q)))"
proof (cases v)
  case (Fin f)
  then show ?thesis using assms(2) by (simp add: np_exp_mono)
next
  case PInf
  then show ?thesis by (simp add: np_le_def)
next
  case NInf
  then show ?thesis by (simp add: np_le_def)
next
  case NaN
  then show ?thesis using assms(1) by simp
qed

lemma plot_rainbow_finite_values:
  assumes "raw_data \<noteq> []"
  shows "\<exists>fig. plot_rainbow [] raw_data popt NUM_BANDS BAND_WIDTH = Inr fig
     \<and> (\<forall>i<9. \<forall>k<length raw_data + 270. \<forall>f. fitted popt (int k + 1) = Fin f \<longrightarrow>
            band_upper fig i ! k = np_exp (Fin (f + (real i - 1.5) * 0.3))
          \<and> band_lower fig i ! k = np_exp (Fin (f + (real i - 1.5) * 0.3 - 0.3)))"
proof -
  from plot_rainbow_values [OF assms, of popt BAND_WIDTH] obtain fig where
    fig: "plot_rainbow [] raw_data popt NUM_BANDS BAND_WIDTH = Inr fig"
    and vals: "\<forall>i<9. \<forall>k<length raw_data + 270.
        band_upper fig i ! k =
          np_exp (np_add (fitted popt (int k + 1)) (Fin ((real i - 1.5) * BAND_WIDTH)))
      \<and> band_lower fig i ! k =
          np_exp (np_sub (np_add (fitted popt (int k + 1)) (Fin ((real i - 1.5) * BAND_WIDTH)))
                         (Fin BAND_WIDTH))"
    by blast
  have "\<forall>i<9. \<forall>k<length raw_data + 270. \<forall>f. fitted popt (int k + 1) = Fin f \<longrightarrow>
            band_upper fig i ! k = np_exp (Fin (f + (real i - 1.5) * 0.3))
          \<and> band_lower fig i ! k = np_exp (Fin (f + (real i - 1.5) * 0.3 - 0.3))"
    using vals by (simp add: BAND_WIDTH_def np_sub_def)
  with fig show ?thesis by blast
qed

lemma example_values:
  "\<exists>fig. plot_rainbow [] [(0, 1)] (Fin 1, Fin 0, Fin 0) NUM_BANDS BAND_WIDTH = Inr fig
     \<and> (\<forall>i<9. band_upper fig i ! 0 = Fin (exp ((real i - 1.5) * 0.3))
            \<and> band_lower fig i ! 0 = Fin (exp ((real i - 1.5) * 0.3 - 0.3)))"
proof -
  have ne: "[(0::int, 1::real)] \<noteq> []" by simp
  from plot_rainbow_finite_values [OF ne, of "(Fin 1, Fin 0, Fin 0)"] obtain fig where
    fig: "plot_rainbow [] [(0, 1)] (Fin 1, Fin 0, Fin 0) NUM_BANDS BAND_WIDTH = Inr fig"
    and vals: "\<forall>i<9. \<forall>k<length [(0::int, 1::real)] + 270.
        \<forall>f. fitted (Fin 1, Fin 0, Fin 0) (int k + 1) = Fin f \<longrightarrow>
            band_upper fig i ! k = np_exp (Fin (f + (real i - 1.5) * 0.3))
          \<and> band_lower fig i ! k = np_exp (Fin (f + (real i - 1.5) * 0.3 - 0.3))"
    by blast
  have "\<forall>i<9. band_upper fig i ! 0 = Fin (exp ((real i - 1.5) * 0.3))
            \<and> band_lower fig i ! 0 = Fin (exp ((real i - 1.5) * 0.3 - 0.3))"
  proof (intro allI impI)
    fix i :: nat assume i: "i < 9"
    have "fitted (Fin 1, Fin 0, Fin 0) (int 0 + 1) = Fin 0"
      using fitted_example by simp
    with vals i have "band_upper fig i ! 0 = np_exp (Fin (0 + (real i - 1.5) * 0.3))
        \<and> band_lower fig i ! 0 = np_exp (Fin (0 + (real i - 1.5) * 0.3 - 0.3))"
      by simp
    then show "band_upper fig i ! 0 = Fin (exp ((real i - 1.5) * 0.3))
            \<and> band_lower fig i ! 0 = Fin (exp ((real i - 1.5) * 0.3 - 0.3))"
      using np_exp_band_in_range [OF i, of 0] by simp
  qed
  with fig show ?thesis by blast
qed

text \<open>
  C3, as stated, fails: on the series of the one row \<open>(0, 1)\<close> with parameters
  \<open>(1, 0, 0)\<close>, band 0 lies strictly below band 8 at date index 1.
\<close>

theorem band_order_counterexample:
  "\<not> isl (plot_rainbow [] [(0, 1)] (Fin 1, Fin 0, Fin 0) NUM_BANDS BAND_WIDTH)
   \<and> \<not> np_le (band_upper (projr (plot_rainbow [] [(0, 1)] (Fin 1, Fin 0, Fin 0) NUM_BANDS BAND_WIDTH)) 8 ! 0)
             (band_upper (projr (plot_rainbow [] [(0, 1)] (Fin 1, Fin 0, Fin 0) NUM_BANDS BAND_WIDTH)) 0 ! 0)
   \<and> \<not> np_le (band_lower (projr (plot_rainbow [] [(0, 1)] (Fin 1, Fin 0, Fin 0) NUM_BANDS BAND_WIDTH)) 8 ! 0)
             (band_lower (projr (plot_rainbow [] [(0, 1)] (Fin 1, Fin 0, Fin 0) NUM_BANDS BAND_WIDTH)) 0 ! 0)"
proof -
  from example_values obtain fig where
    fig: "plot_rainbow [] [(0, 1)] (Fin 1, Fin 0, Fin 0) NUM_BANDS BAND_WIDTH = Inr fig"
    and vals: "\<forall>i<9. band_upper fig i ! 0 = Fin (exp ((real i - 1.5) * 0.3))
            \<and> band_lower fig i ! 0 = Fin (exp ((real i - 1.5) * 0.3 - 0.3))"
    by blast
  have "band_upper fig 0 ! 0 = Fin (exp ((real 0 - 1.5) * 0.3))"
    "band_upper fig 8 ! 0 = Fin (exp ((real 8 - 1.5) * 0.3))"
    "band_lower fig 0 ! 0 = Fin (exp ((real 0 - 1.5) * 0.3 - 0.3))"
    "band_lower fig 8 ! 0 = Fin (exp ((real 8 - 1.5) * 0.3 - 0.3))"
    using vals by simp_all
  then show ?thesis
    unfolding fig by (simp add: np_le_def)
qed

text \<open>
  C3, amended. For every fit parameter triple and every non-empty series, at every date
  index where the fitted value is not \<open>nan\<close>, a band with the smaller index has a value
  equal to or smaller than a band with the larger index; in particular the band with
  index 8 has a value equal to or greater than the band with index 0. The bands run
  from low valuation at index 0 to high valuation at index 8.
\<close>

theorem band_order:
  assumes "raw_data \<noteq> []" and "i \<le> j" and "j < 9"
    and "k < length raw_data + 270" and "fitted popt (int k + 1) \<noteq> NaN"
  shows "\<exists>fig. plot_rainbow [] raw_data popt NUM_BANDS BAND_WIDTH = Inr fig
     \<and> np_le (band_upper fig i ! k) (band_upper fig j ! k)
     \<and> np_le (band_lower fig i ! k) (band_lower fig j ! k)"
proof -
  let ?n = "length raw_data + 270"
  let ?v = "fitted popt (int k + 1)"
  from plot_rainbow_values [OF assms(1), of popt BAND_WIDTH] obtain fig where
    fig: "plot_rainbow [] raw_data popt NUM_BANDS BAND_WIDTH = Inr fig"
    and vals: "\<forall>i<9. \<forall>k<?n.
        band_upper fig i ! k =
          np_exp (np_add (fitted popt (int k + 1)) (Fin ((real i - 1.5) * BAND_WIDTH)))
      \<and> band_lower fig i ! k =
          np_exp (np_sub (np_add (fitted popt (int k + 1)) (Fin ((real i - 1.5) * BAND_WIDTH)))
                         (Fin BAND_WIDTH))"
    by blast
  have i: "i < 9" using assms(2,3) by simp
  have up: "band_upper fig m ! k = np_exp (np_add ?v (Fin ((real m - 1.5) * BAND_WIDTH)))"
    and lo: "band_lower fig m ! k =
        np_exp (np_add ?v (Fin ((real m - 1.5) * BAND_WIDTH - BAND_WIDTH)))"
    if "m < 9" for m
    using vals that assms(4) by (simp_all add: np_sub_add_Fin)
  have off: "(real i - 1.5) * BAND_WIDTH \<le> (real j - 1.5) * BAND_WIDTH"
    using assms(2) by (simp add: BAND_WIDTH_def)
  have le_up: "np_le (band_upper fig i ! k) (band_upper fig j ! k)"
    unfolding up [OF i] up [OF assms(3)]
    using assms(5) off by (rule np_le_exp_add)
  have le_lo: "np_le (band_lower fig i ! k) (band_lower fig j ! k)"
    unfolding lo [OF i] lo [OF assms(3)]
    using assms(5) off by (intro np_le_exp_add) simp_all
  from fig le_up le_lo show ?thesis by blast
qed

theorem band_order_witness:
  "\<exists>fig. plot_rainbow [] [(0, 1)] (Fin 1, Fin 0, Fin 0) NUM_BANDS BAND_WIDTH = Inr fig
     \<and> np_le (band_upper fig 0 ! 0) (band_upper fig 8 ! 0)
     \<and> np_le (band_lower fig 0 ! 0) (band_lower fig 8 ! 0)"
proof -
  have h: "[(0::int, 1::real)] \<noteq> []" "(0::nat) \<le> 8" "(8::nat) < 9"
    "0 < length [(0::int, 1::real)] + 270"
    "fitted (Fin 1, Fin 0, Fin 0) (int 0 + 1) \<noteq> NaN"
    using fitted_example by simp_all
  from band_order [OF h] show ?thesis .
qed

lemma rev_palette_nth:
  assumes "i < 9"
  shows "rev (map fst COLORS_LABELS) ! i = fst (COLORS_LABELS ! (8 - i))"
    and "rev (map snd COLORS_LABELS) ! i = snd (COLORS_LABELS ! (8 - i))"
  using assms by (simp_all add: rev_nth length_COLORS_LABELS)

lemma plot_rainbow_palette:
  assumes "raw_data \<noteq> []"
  shows "\<exists>fig. plot_rainbow [] raw_data popt NUM_BANDS bw = Inr fig
     \<and> (\<forall>i<9. band_color fig i = Some (fst (COLORS_LABELS ! (8 - i)))
            \<and> band_label fig i = Some (snd (COLORS_LABELS ! (8 - i))))"
proof -
  from plot_rainbow_bands [OF assms, of popt bw] obtain fig ext where
    fig: "plot_rainbow [] raw_data popt NUM_BANDS bw = Inr fig"
    and tr: "\<forall>i<9. fig ! (2 * i) =
            upper_trace (col_Date raw_data @ ext)
              (upper_bound (log_func (arange 1 (int (length raw_data + 270) + 1)) popt) bw i)
          \<and> fig ! (2 * i + 1) =
            lower_trace (col_Date raw_data @ ext)
              (lower_bound (log_func (arange 1 (int (length raw_data + 270) + 1)) popt) bw i)
              (rev (map fst COLORS_LABELS) ! i) (rev (map snd COLORS_LABELS) ! i)"
    by blast
  have "\<forall>i<9. band_color fig i = Some (fst (COLORS_LABELS ! (8 - i)))
            \<and> band_label fig i = Some (snd (COLORS_LABELS ! (8 - i)))"
    using tr by (simp add: band_color_def band_label_def lower_trace_def rev_palette_nth)
  with fig show ?thesis by blast
qed

lemma palette_ends:
  "COLORS_LABELS ! 8 = (''#4472c4'', ''Fire sale!'')"
  "COLORS_LABELS ! 0 = (''#c00200'', ''Maximum bubble territory'')"
  by (simp_all add: COLORS_LABELS_def)

text \<open>
  C4, as stated, fails: on the series of the one row \<open>(0, 1)\<close> with parameters
  \<open>(1, 0, 0)\<close>, at date index 1 the distance from the logarithm of the lowest lower
  bound up to the fitted value is strictly less than the distance from the fitted value
  up to the logarithm of the highest upper bound.
\<close>

theorem band_symmetry_counterexample:
  "\<not> isl (plot_rainbow [] [(0, 1)] (Fin 1, Fin 0, Fin 0) NUM_BANDS BAND_WIDTH)
   \<and> np_less
       (np_sub (fitted (Fin 1, Fin 0, Fin 0) 1)
         (np_log (band_lower (projr (plot_rainbow [] [(0, 1)] (Fin 1, Fin 0, Fin 0) NUM_BANDS BAND_WIDTH)) 0 ! 0)))
       (np_sub
         (np_log (band_upper (projr (plot_rainbow [] [(0, 1)] (Fin 1, Fin 0, Fin 0) NUM_BANDS BAND_WIDTH)) 8 ! 0))
         (fitted (Fin 1, Fin 0, Fin 0) 1))
   \<and> np_sub (fitted (Fin 1, Fin 0, Fin 0) 1)
       (np_log (band_lower (projr (plot_rainbow [] [(0, 1)] (Fin 1, Fin 0, Fin 0) NUM_BANDS BAND_WIDTH)) 0 ! 0))
     \<noteq> np_sub
       (np_log (band_upper (projr (plot_rainbow [] [(0, 1)] (Fin 1, Fin 0, Fin 0) NUM_BANDS BAND_WIDTH)) 8 ! 0))
       (fitted (Fin 1, Fin 0, Fin 0) 1)"
proof -
  from example_values obtain fig where
    fig: "plot_rainbow [] [(0, 1)] (Fin 1, Fin 0, Fin 0) NUM_BANDS BAND_WIDTH = Inr fig"
    and vals: "\<forall>i<9. band_upper fig i ! 0 = Fin (exp ((real i - 1.5) * 0.3))
            \<and> band_lower fig i ! 0 = Fin (exp ((real i - 1.5) * 0.3 - 0.3))"
    by blast
  have "band_upper fig 8 ! 0 = Fin (exp ((real 8 - 1.5) * 0.3))"
    "band_lower fig 0 ! 0 = Fin (exp ((real 0 - 1.5) * 0.3 - 0.3))"
    using vals by simp_all
  then show ?thesis
    unfolding fig fitted_example by (simp add: np_sub_def)
qed

text \<open>
  C4, amended. For every fit parameter triple, every non-empty series and every date
  index where the fitted value lies between -600 and 600, the stack of nine bands is
  not symmetric around the fitted curve in log-space: the fitted value lies about 0.75
  (within 0.01) above the logarithm of the lower bound of band 0, the lowest band, and
  about 1.95 (within 0.01) below the logarithm of the upper bound of band 8, the highest
  band.
\<close>

theorem band_stack_span:
  assumes "raw_data \<noteq> []" and "k < length raw_data + 270"
    and "fitted popt (int k + 1) = Fin f" and "- 600 \<le> f" and "f \<le> 600"
  shows "\<exists>fig below above. plot_rainbow [] raw_data popt NUM_BANDS BAND_WIDTH = Inr fig
     \<and> np_sub (fitted popt (int k + 1)) (np_log (band_lower fig 0 ! k)) = Fin below
     \<and> np_sub (np_log (band_upper fig 8 ! k)) (fitted popt (int k + 1)) = Fin above
     \<and> 0.74 < below \<and> below < 0.76
     \<and> 1.94 < above \<and> above < 1.96
     \<and> below < above"
proof -
  from plot_rainbow_finite_values [OF assms(1), of popt] obtain fig where
    fig: "plot_rainbow [] raw_data popt NUM_BANDS BAND_WIDTH = Inr fig"
    and vals: "\<forall>i<9. \<forall>k<length raw_data + 270. \<forall>f. fitted popt (int k + 1) = Fin f \<longrightarrow>
            band_upper fig i ! k = np_exp (Fin (f + (real i - 1.5) * 0.3))
          \<and> band_lower fig i ! k = np_exp (Fin (f + (real i - 1.5) * 0.3 - 0.3))"
    by blast
  have "band_lower fig 0 ! k = np_exp (Fin (f + (real 0 - 1.5) * 0.3 - 0.3))"
    using vals assms(2,3) by simp
  then have lo: "band_lower fig 0 ! k = Fin (exp (f + (real 0 - 1.5) * 0.3 - 0.3))"
    using np_exp_band_in_range(2) [of 0 f] assms(4,5) by simp
  have "band_upper fig 8 ! k = np_exp (Fin (f + (real 8 - 1.5) * 0.3))"
    using vals assms(2,3) by simp
  then have up: "band_upper fig 8 ! k = Fin (exp (f + (real 8 - 1.5) * 0.3))"
    using np_exp_band_in_range(1) [of 8 f] assms(4,5) by simp
  have below: "np_sub (fitted popt (int k + 1)) (np_log (band_lower fig 0 ! k)) = Fin 0.75"
    unfolding lo assms(3) by (simp add: np_sub_def)
  have above: "np_sub (np_log (band_upper fig 8 ! k)) (fitted popt (int k + 1)) = Fin 1.95"
    unfolding up assms(3) by (simp add: np_sub_def)
  show ?thesis
    using fig below above by (intro exI [of _ fig] exI [of _ "0.75"] exI [of _ "1.95"]) simp
qed

theorem band_stack_span_witness:
  "\<exists>fig below above.
       plot_rainbow [] [(0, 1)] (Fin 1, Fin 0, Fin 0) NUM_BANDS BAND_WIDTH = Inr fig
     \<and> np_sub (fitted (Fin 1, Fin 0, Fin 0) 1) (np_log (band_lower fig 0 ! 0)) = Fin below
     \<and> np_sub (np_log (band_upper fig 8 ! 0)) (fitted (Fin 1, Fin 0, Fin 0) 1) = Fin above
     \<and> below < above"
proof -
  have h: "[(0::int, 1::real)] \<noteq> []" "0 < length [(0::int, 1::real)] + 270"
    "fitted (Fin 1, Fin 0, Fin 0) (int 0 + 1) = Fin 0" "- 600 \<le> (0::real)" "(0::real) \<le> 600"
    using fitted_example by simp_all
  from band_stack_span [OF h] obtain fig below above where
    "plot_rainbow [] [(0, 1)] (Fin 1, Fin 0, Fin 0) NUM_BANDS BAND_WIDTH = Inr fig"
    "np_sub (fitted (Fin 1, Fin 0, Fin 0) (int 0 + 1)) (np_log (band_lower fig 0 ! 0)) = Fin below"
    "np_sub (np_log (band_upper fig 8 ! 0)) (fitted (Fin 1, Fin 0, Fin 0) (int 0 + 1)) = Fin above"
    "below < above"
    by blast
  then show ?thesis
    by (intro exI [of _ fig] exI [of _ below] exI [of _ above]) simp
qed

text \<open>
  C5, as stated, fails: on the series of the one row \<open>(0, 1)\<close> the band at index 0 has
  the colour \<open>#4472c4\<close> and the label \<open>Fire sale!\<close>, and the band at index 8 has the
  colour \<open>#c00200\<close> and the label \<open>Maximum bubble territory\<close>.
\<close>

theorem band_palette_counterexample:
  "\<not> isl (plot_rainbow [] [(0, 1)] (Fin 1, Fin 0, Fin 0) NUM_BANDS BAND_WIDTH)
   \<and> band_color (projr (plot_rainbow [] [(0, 1)] (Fin 1, Fin 0, Fin 0) NUM_BANDS BAND_WIDTH)) 0
       \<noteq> Some ''#c00200''
   \<and> band_label (projr (plot_rainbow [] [(0, 1)] (Fin 1, Fin 0, Fin 0) NUM_BANDS BAND_WIDTH)) 0
       \<noteq> Some ''Maximum bubble territory''
   \<and> band_color (projr (plot_rainbow [] [(0, 1)] (Fin 1, Fin 0, Fin 0) NUM_BANDS BAND_WIDTH)) 8
       \<noteq> Some ''#4472c4''
   \<and> band_label (projr (plot_rainbow [] [(0, 1)] (Fin 1, Fin 0, Fin 0) NUM_BANDS BAND_WIDTH)) 8
       \<noteq> Some ''Fire sale!''"
proof -
  have ne: "[(0::int, 1::real)] \<noteq> []" by simp
  from plot_rainbow_palette [OF ne, of "(Fin 1, Fin 0, Fin 0)" BAND_WIDTH] obtain fig where
    fig: "plot_rainbow [] [(0, 1)] (Fin 1, Fin 0, Fin 0) NUM_BANDS BAND_WIDTH = Inr fig"
    and pal: "\<forall>i<9. band_color fig i = Some (fst (COLORS_LABELS ! (8 - i)))
            \<and> band_label fig i = Some (snd (COLORS_LABELS ! (8 - i)))"
    by blast
  have "band_color fig 0 = Some ''#4472c4''" "band_label fig 0 = Some ''Fire sale!''"
    "band_color fig 8 = Some ''#c00200''" "band_label fig 8 = Some ''Maximum bubble territory''"
    using pal by (simp_all add: palette_ends)
  then show ?thesis unfolding fig by simp
qed

text \<open>
  C5, amended. For every render of a non-empty series, the band at index \<open>i\<close> has the
  colour and the label of entry \<open>8 - i\<close> of the palette: the band at index 0 has the
  colour \<open>#4472c4\<close> and the label \<open>Fire sale!\<close>, the band at index 8 has the colour
  \<open>#c00200\<close> and the label \<open>Maximum bubble territory\<close>, and the bands between them
  follow the palette in reverse.
\<close>

theorem band_palette:
  assumes "raw_data \<noteq> []" and "i < 9"
  shows "\<exists>fig. plot_rainbow [] raw_data popt NUM_BANDS BAND_WIDTH = Inr fig
     \<and> band_color fig i = Some (fst (COLORS_LABELS ! (8 - i)))
     \<and> band_label fig i = Some (snd (COLORS_LABELS ! (8 - i)))
     \<and> band_color fig 0 = Some ''#4472c4''
     \<and> band_label fig 0 = Some ''Fire sale!''
     \<and> band_color fig 8 = Some ''#c00200''
     \<and> band_label fig 8 = Some ''Maximum bubble territory''"
proof -
  from plot_rainbow_palette [OF assms(1), of popt BAND_WIDTH] obtain fig where
    fig: "plot_rainbow [] raw_data popt NUM_BANDS BAND_WIDTH = Inr fig"
    and pal: "\<forall>i<9. band_color fig i = Some (fst (COLORS_LABELS ! (8 - i)))
            \<and> band_label fig i = Some (snd (COLORS_LABELS ! (8 - i)))"
    by blast
  have "band_color fig 0 = Some ''#4472c4''" "band_label fig 0 = Some ''Fire sale!''"
    "band_color fig 8 = Some ''#c00200''" "band_label fig 8 = Some ''Maximum bubble territory''"
    using pal by (simp_all add: palette_ends)
  with fig pal assms(2) show ?thesis by blast
qed

theorem band_palette_witness:
  "\<exists>fig. plot_rainbow [] [(0, 1)] (Fin 1, Fin 0, Fin 0) NUM_BANDS BAND_WIDTH = Inr fig
     \<and> band_color fig 4 = Some ''#feeb84''
     \<and> band_label fig 4 = Some ''HODL!''
     \<and> band_color fig 0 = Some ''#4472c4''
     \<and> band_label fig 8 = Some ''Maximum bubble territory''"
proof -
  have h: "[(0::int, 1::real)] \<noteq> []" "(4::nat) < 9" by simp_all
  from band_palette [OF h, of "(Fin 1, Fin 0, Fin 0)"] obtain fig where
    "plot_rainbow [] [(0, 1)] (Fin 1, Fin 0, Fin 0) NUM_BANDS BAND_WIDTH = Inr fig"
    "band_color fig 4 = Some (fst (COLORS_LABELS ! (8 - 4)))"
    "band_label fig 4 = Some (snd (COLORS_LABELS ! (8 - 4)))"
    "band_color fig 0 = Some ''#4472c4''"
    "band_label fig 8 = Some ''Maximum bubble territory''"
    by blast
  then show ?thesis by (intro exI [of _ fig]) (simp add: COLORS_LABELS_def)
qed

lemma take_arange:
  assumes "m \<le> n"
  shows "take m (arange 1 (int n + 1)) = arange 1 (int m + 1)"
proof (rule nth_equalityI)
  show "length (take m (arange 1 (int n + 1))) = length (arange 1 (int m + 1))"
    using assms by (simp add: length_arange)
  fix k assume "k < length (take m (arange 1 (int n + 1)))"
  then have k: "k < m" "k < n" using assms by (simp_all add: length_arange)
  then show "take m (arange 1 (int n + 1)) ! k = arange 1 (int m + 1) ! k"
    by (simp add: nth_arange)
qed

text \<open>
  C7. For every non-empty input series of length \<open>n\<close>, the index on which
  \<open>plot_rainbow\<close> evaluates the fitted curve is \<open>1, 2, ..., n + 270\<close> over the original
  dates followed by the extended ones: its first \<open>n\<close> entries are the index of the fit,
  and the extended dates continue it.
\<close>

theorem extended_index:
  assumes "raw_data \<noteq> []"
  shows "\<exists>ext. extend_dates raw_data EXTEND_MONTHS = Inr (col_Date raw_data @ ext)
     \<and> plot_rainbow fig raw_data popt num_bands bw =
         plot_rainbow_loop fig (col_Date raw_data @ ext)
           (log_func (arange 1 (int (length (col_Date raw_data @ ext)) + 1)) popt) bw
           [0..<num_bands]
     \<and> arange 1 (int (length (col_Date raw_data @ ext)) + 1) =
         [1..int (length raw_data) + 270]
     \<and> length (arange 1 (int (length (col_Date raw_data @ ext)) + 1)) = length raw_data + 270
     \<and> (\<forall>k<length raw_data + 270.
          arange 1 (int (length (col_Date raw_data @ ext)) + 1) ! k = int k + 1)
     \<and> take (length raw_data) (arange 1 (int (length (col_Date raw_data @ ext)) + 1)) =
         fit_xdata raw_data"
proof -
  let ?ext = "map (\<lambda>k. Max (set (col_Date raw_data)) + 1 + int k) [0..<270]"
  let ?ds = "col_Date raw_data @ ?ext"
  have e: "extend_dates raw_data EXTEND_MONTHS = Inr ?ds"
    using extend_dates_nonempty [OF assms, of 9] by (simp add: EXTEND_MONTHS_def)
  have len: "length ?ds = length raw_data + 270"
    by (simp add: col_Date_def)
  have p: "plot_rainbow fig raw_data popt num_bands bw =
      plot_rainbow_loop fig ?ds (log_func (arange 1 (int (length ?ds) + 1)) popt) bw
        [0..<num_bands]"
    unfolding plot_rainbow_def e by (simp add: Let_def)
  have a1: "arange 1 (int (length ?ds) + 1) = [1..int (length raw_data) + 270]"
    unfolding len by (simp add: arange_def add.commute)
  have a2: "length (arange 1 (int (length ?ds) + 1)) = length raw_data + 270"
    unfolding len by (rule length_arange)
  have a3: "\<forall>k<length raw_data + 270. arange 1 (int (length ?ds) + 1) ! k = int k + 1"
  proof (intro allI impI)
    fix k assume "k < length raw_data + 270"
    then show "arange 1 (int (length ?ds) + 1) ! k = int k + 1"
      unfolding len by (rule nth_arange)
  qed
  have a4: "take (length raw_data) (arange 1 (int (length ?ds) + 1)) = fit_xdata raw_data"
    unfolding len fit_xdata_def by (rule take_arange) simp
  from e p a1 a2 a3 a4 show ?thesis by blast
qed

theorem extended_index_witness:
  "\<exists>ext. extend_dates [(10, 5), (11, 6)] EXTEND_MONTHS =
        Inr (col_Date [(10, 5), (11, 6)] @ ext)
     \<and> arange 1 (int (length (col_Date [(10, 5), (11, 6)] @ ext)) + 1) = [1..272]
     \<and> arange 1 (int (length (col_Date [(10, 5), (11, 6)] @ ext)) + 1) ! 2 = 3
     \<and> take 2 (arange 1 (int (length (col_Date [(10, 5), (11, 6)] @ ext)) + 1)) = [1, 2]"
proof -
  have ne: "[(10::int, 5::real), (11, 6)] \<noteq> []" by simp
  have fx: "fit_xdata [(10, 5), (11, 6)] = [1, 2]"
    by (simp add: fit_xdata_def arange_def upto.simps)
  from extended_index [OF ne] obtain ext where
    "extend_dates [(10, 5), (11, 6)] EXTEND_MONTHS = Inr (col_Date [(10, 5), (11, 6)] @ ext)"
    "arange 1 (int (length (col_Date [(10, 5), (11, 6)] @ ext)) + 1) =
       [1..int (length [(10::int, 5::real), (11, 6)]) + 270]"
    "\<forall>k<length [(10::int, 5::real), (11, 6)] + 270.
       arange 1 (int (length (col_Date [(10, 5), (11, 6)] @ ext)) + 1) ! k = int k + 1"
    "take (length [(10::int, 5::real), (11, 6)])
       (arange 1 (int (length (col_Date [(10, 5), (11, 6)] @ ext)) + 1)) =
     fit_xdata [(10, 5), (11, 6)]"
    by blast
  then have e: "extend_dates [(10, 5), (11, 6)] EXTEND_MONTHS =
        Inr (col_Date [(10, 5), (11, 6)] @ ext)"
    and a0: "arange 1 (int (length (col_Date [(10, 5), (11, 6)] @ ext)) + 1) =
       [1..int (length [(10::int, 5::real), (11, 6)]) + 270]"
    and n0: "\<forall>k<length [(10::int, 5::real), (11, 6)] + 270.
       arange 1 (int (length (col_Date [(10, 5), (11, 6)] @ ext)) + 1) ! k = int k + 1"
    and t0: "take (length [(10::int, 5::real), (11, 6)])
       (arange 1 (int (length (col_Date [(10, 5), (11, 6)] @ ext)) + 1)) =
     fit_xdata [(10, 5), (11, 6)]"
    by blast+
  have l2: "length [(10::int, 5::real), (11, 6)] = 2" by simp
  have a: "arange 1 (int (length (col_Date [(10, 5), (11, 6)] @ ext)) + 1) = [1..272]"
    using a0 unfolding l2 by simp
  have "(2::nat) < 2 + 270" by simp
  with n0 have "arange 1 (int (length (col_Date [(10, 5), (11, 6)] @ ext)) + 1) ! 2 = int 2 + 1"
    unfolding l2 by blast
  then have n: "arange 1 (int (length (col_Date [(10, 5), (11, 6)] @ ext)) + 1) ! 2 = 3"
    by simp
  have t: "take 2 (arange 1 (int (length (col_Date [(10, 5), (11, 6)] @ ext)) + 1)) = [1, 2]"
    using t0 unfolding l2 fx .
  from e a n t show ?thesis by blast
qed

text \<open>
  C8. For every non-empty input series of length \<open>n\<close> and all fit parameters,
  \<open>plot_rainbow\<close> returns exactly 9 bands (18 traces, an upper and a lower one per
  band), and the lower and the upper bound of each band have one value for each of the
  \<open>n + 270\<close> extended dates.
\<close>

theorem nine_bands_cover:
  assumes "raw_data \<noteq> []"
  shows "\<exists>fig ext. extend_dates raw_data EXTEND_MONTHS = Inr (col_Date raw_data @ ext)
     \<and> length (col_Date raw_data @ ext) = length raw_data + 270
     \<and> plot_rainbow [] raw_data popt NUM_BANDS BAND_WIDTH = Inr fig
     \<and> length fig = 2 * 9
     \<and> (\<forall>i<9. length (band_upper fig i) = length raw_data + 270
            \<and> length (band_lower fig i) = length raw_data + 270
            \<and> scatter_x (fig ! (2 * i)) = col_Date raw_data @ ext
            \<and> scatter_x (fig ! (2 * i + 1)) = col_Date raw_data @ ext
            \<and> scatter_name (fig ! (2 * i)) = None
            \<and> band_label fig i \<noteq> None)"
proof -
  let ?n = "length raw_data + 270"
  let ?ys = "log_func (arange 1 (int ?n + 1)) popt"
  from plot_rainbow_bands [OF assms, of popt BAND_WIDTH] obtain fig ext where
    ext: "length ext = 270"
      "extend_dates raw_data EXTEND_MONTHS = Inr (col_Date raw_data @ ext)"
    and fig: "plot_rainbow [] raw_data popt NUM_BANDS BAND_WIDTH = Inr fig"
      "length fig = 18"
    and tr: "\<forall>i<9. fig ! (2 * i) =
            upper_trace (col_Date raw_data @ ext) (upper_bound ?ys BAND_WIDTH i)
          \<and> fig ! (2 * i + 1) =
            lower_trace (col_Date raw_data @ ext) (lower_bound ?ys BAND_WIDTH i)
              (rev (map fst COLORS_LABELS) ! i) (rev (map snd COLORS_LABELS) ! i)"
    by blast
  have len: "length ?ys = ?n"
    by (simp only: length_log_func length_arange)
  have dl: "length (col_Date raw_data @ ext) = ?n"
    using ext(1) by (simp add: col_Date_def)
  have "\<forall>i<9. length (band_upper fig i) = ?n
            \<and> length (band_lower fig i) = ?n
            \<and> scatter_x (fig ! (2 * i)) = col_Date raw_data @ ext
            \<and> scatter_x (fig ! (2 * i + 1)) = col_Date raw_data @ ext
            \<and> scatter_name (fig ! (2 * i)) = None
            \<and> band_label fig i \<noteq> None"
    using tr len
    by (simp add: band_upper_def band_lower_def band_label_def upper_trace_def
        lower_trace_def upper_bound_def lower_bound_def)
  with ext(2) dl fig show ?thesis by (intro exI [of _ fig] exI [of _ ext]) simp
qed

theorem nine_bands_cover_witness:
  "\<exists>fig. plot_rainbow [] [(10, 5), (11, 6)] (Fin 1, Fin 0, Fin 0) NUM_BANDS BAND_WIDTH = Inr fig
     \<and> length fig = 18
     \<and> length (band_upper fig 3) = 272
     \<and> length (band_lower fig 3) = 272"
proof -
  have ne: "[(10::int, 5::real), (11, 6)] \<noteq> []" by simp
  from nine_bands_cover [OF ne, of "(Fin 1, Fin 0, Fin 0)"] obtain fig where
    "plot_rainbow [] [(10, 5), (11, 6)] (Fin 1, Fin 0, Fin 0) NUM_BANDS BAND_WIDTH = Inr fig"
    "length fig = 2 * 9"
    "\<forall>i<9. length (band_upper fig i) = length [(10::int, 5::real), (11, 6)] + 270
          \<and> length (band_lower fig i) = length [(10::int, 5::real), (11, 6)] + 270"
    by blast
  then show ?thesis by (intro exI [of _ fig]) simp
qed

lemma underflow_example_finite:
  "list_all np_isfinite (log_func (arange 1 272) (Fin 1, Fin 0, Fin (- 1000)))"
  by (simp add: list_all_iff log_func_def arange_def fitted_def)

lemma underflow_example_values:
  "\<exists>fig. plot_rainbow [] [(0, 1)] (Fin 1, Fin 0, Fin (- 1000)) NUM_BANDS BAND_WIDTH = Inr fig
     \<and> band_lower fig 0 ! 0 = Fin 0 \<and> band_upper fig 0 ! 0 = Fin 0"
proof -
  have ne: "[(0::int, 1::real)] \<noteq> []" by simp
  from plot_rainbow_finite_values [OF ne, of "(Fin 1, Fin 0, Fin (- 1000))"] obtain fig where
    fig: "plot_rainbow [] [(0, 1)] (Fin 1, Fin 0, Fin (- 1000)) NUM_BANDS BAND_WIDTH = Inr fig"
    and vals: "\<forall>i<9. \<forall>k<length [(0::int, 1::real)] + 270.
        \<forall>f. fitted (Fin 1, Fin 0, Fin (- 1000)) (int k + 1) = Fin f \<longrightarrow>
            band_upper fig i ! k = np_exp (Fin (f + (real i - 1.5) * 0.3))
          \<and> band_lower fig i ! k = np_exp (Fin (f + (real i - 1.5) * 0.3 - 0.3))"
    by blast
  have "fitted (Fin 1, Fin 0, Fin (- 1000)) (int 0 + 1) = Fin (- 1000)"
    by (simp add: fitted_def)
  with vals have "band_upper fig 0 ! 0 = np_exp (Fin (- 1000 + (real 0 - 1.5) * 0.3))"
    "band_lower fig 0 ! 0 = np_exp (Fin (- 1000 + (real 0 - 1.5) * 0.3 - 0.3))"
    by simp_all
  then have "band_upper fig 0 ! 0 = Fin 0" "band_lower fig 0 ! 0 = Fin 0"
    by (simp_all add: np_exp_underflow)
  with fig show ?thesis by blast
qed

text \<open>
  C10, as stated, fails: on the series of the one row \<open>(0, 1)\<close> with parameters
  \<open>(1, 0, -1000)\<close> the fitted value is finite at every date index of the extended
  range, and at date index 1 the lower and the upper bound of band 0 are both \<open>0.0\<close>:
  not strictly positive, and the lower bound not below the upper one.
\<close>

theorem bounds_positive_counterexample:
  "list_all np_isfinite (log_func (arange 1 272) (Fin 1, Fin 0, Fin (- 1000)))
   \<and> \<not> isl (plot_rainbow [] [(0, 1)] (Fin 1, Fin 0, Fin (- 1000)) NUM_BANDS BAND_WIDTH)
   \<and> band_lower (projr (plot_rainbow [] [(0, 1)] (Fin 1, Fin 0, Fin (- 1000)) NUM_BANDS BAND_WIDTH)) 0 ! 0
       = Fin 0
   \<and> band_upper (projr (plot_rainbow [] [(0, 1)] (Fin 1, Fin 0, Fin (- 1000)) NUM_BANDS BAND_WIDTH)) 0 ! 0
       = Fin 0
   \<and> \<not> np_less (Fin 0)
       (band_lower (projr (plot_rainbow [] [(0, 1)] (Fin 1, Fin 0, Fin (- 1000)) NUM_BANDS BAND_WIDTH)) 0 ! 0)
   \<and> \<not> np_less
       (band_lower (projr (plot_rainbow [] [(0, 1)] (Fin 1, Fin 0, Fin (- 1000)) NUM_BANDS BAND_WIDTH)) 0 ! 0)
       (band_upper (projr (plot_rainbow [] [(0, 1)] (Fin 1, Fin 0, Fin (- 1000)) NUM_BANDS BAND_WIDTH)) 0 ! 0)"
proof -
  from underflow_example_values obtain fig where
    fig: "plot_rainbow [] [(0, 1)] (Fin 1, Fin 0, Fin (- 1000)) NUM_BANDS BAND_WIDTH = Inr fig"
    and z: "band_lower fig 0 ! 0 = Fin 0" "band_upper fig 0 ! 0 = Fin 0"
    by blast
  show ?thesis
    unfolding fig using underflow_example_finite z by simp
qed

text \<open>
  C10, amended. For every fit parameter triple, every non-empty series, every band
  index \<open>i < 9\<close> and every date index where the fitted value is finite, both bounds of
  the band are non-negative (\<open>0.0\<close> where \<open>exp\<close> underflows, \<open>inf\<close> where it overflows)
  and the lower bound is at most the upper bound; where moreover the fitted value lies
  between -600 and 600, both bounds are finite and strictly positive and the lower bound
  is strictly below the upper bound.
\<close>

theorem bounds_ordered:
  assumes "raw_data \<noteq> []" and "i < 9" and "k < length raw_data + 270"
    and "fitted popt (int k + 1) = Fin f"
  shows "\<exists>fig. plot_rainbow [] raw_data popt NUM_BANDS BAND_WIDTH = Inr fig
     \<and> np_le (Fin 0) (band_lower fig i ! k)
     \<and> np_le (Fin 0) (band_upper fig i ! k)
     \<and> np_le (band_lower fig i ! k) (band_upper fig i ! k)
     \<and> (- 600 \<le> f \<and> f \<le> 600 \<longrightarrow>
          (\<exists>l u. band_lower fig i ! k = Fin l \<and> band_upper fig i ! k = Fin u
             \<and> 0 < l \<and> l < u))"
proof -
  from plot_rainbow_finite_values [OF assms(1), of popt] obtain fig where
    fig: "plot_rainbow [] raw_data popt NUM_BANDS BAND_WIDTH = Inr fig"
    and vals: "\<forall>i<9. \<forall>k<length raw_data + 270. \<forall>f. fitted popt (int k + 1) = Fin f \<longrightarrow>
            band_upper fig i ! k = np_exp (Fin (f + (real i - 1.5) * 0.3))
          \<and> band_lower fig i ! k = np_exp (Fin (f + (real i - 1.5) * 0.3 - 0.3))"
    by blast
  define t where "t = f + (real i - 1.5) * 0.3"
  have up: "band_upper fig i ! k = np_exp (Fin t)"
    and lo: "band_lower fig i ! k = np_exp (Fin (t - 0.3))"
    using vals assms(2,3,4) by (simp_all add: t_def)
  have n1: "np_le (Fin 0) (band_lower fig i ! k)"
    and n2: "np_le (Fin 0) (band_upper fig i ! k)"
    unfolding up lo by (rule np_exp_nonneg)+
  have le: "np_le (band_lower fig i ! k) (band_upper fig i ! k)"
    unfolding up lo by (rule np_exp_mono) simp
  have strict: "\<exists>l u. band_lower fig i ! k = Fin l \<and> band_upper fig i ! k = Fin u
             \<and> 0 < l \<and> l < u"
    if "- 600 \<le> f" "f \<le> 600"
  proof -
    have "band_upper fig i ! k = Fin (exp t)" "band_lower fig i ! k = Fin (exp (t - 0.3))"
      unfolding up lo t_def using np_exp_band_in_range [OF assms(2) that] by simp_all
    moreover have "0 < exp (t - 0.3)" "exp (t - 0.3) < exp t"
      by simp_all
    ultimately show ?thesis by blast
  qed
  from fig n1 n2 le strict show ?thesis by blast
qed

theorem bounds_ordered_witness:
  "\<exists>fig l u. plot_rainbow [] [(0, 1)] (Fin 1, Fin 0, Fin 0) NUM_BANDS BAND_WIDTH = Inr fig
     \<and> np_le (band_lower fig 2 ! 0) (band_upper fig 2 ! 0)
     \<and> band_lower fig 2 ! 0 = Fin l
     \<and> band_upper fig 2 ! 0 = Fin u
     \<and> 0 < l \<and> l < u"
proof -
  have h: "[(0::int, 1::real)] \<noteq> []" "(2::nat) < 9" "0 < length [(0::int, 1::real)] + 270"
    "fitted (Fin 1, Fin 0, Fin 0) (int 0 + 1) = Fin 0"
    using fitted_example by simp_all
  from bounds_ordered [OF h] obtain fig where
    fig: "plot_rainbow [] [(0, 1)] (Fin 1, Fin 0, Fin 0) NUM_BANDS BAND_WIDTH = Inr fig"
    and le: "np_le (band_lower fig 2 ! 0) (band_upper fig 2 ! 0)"
    and strict: "- 600 \<le> (0::real) \<and> (0::real) \<le> 600 \<longrightarrow>
          (\<exists>l u. band_lower fig 2 ! 0 = Fin l \<and> band_upper fig 2 ! 0 = Fin u
             \<and> 0 < l \<and> l < u)"
    by blast
  from strict obtain l u where
    "band_lower fig 2 ! 0 = Fin l" "band_upper fig 2 ! 0 = Fin u" "0 < l" "l < u"
    by auto
  with fig le show ?thesis by blast
qed

lemma create_plot_returns:
  assumes "raw_data \<noteq> []"
  shows "\<exists>fig. create_plot raw_data popt = Inr fig"
proof -
  from plot_rainbow_bands [OF assms, of popt BAND_WIDTH] obtain fig where
    "plot_rainbow [] raw_data popt NUM_BANDS BAND_WIDTH = Inr fig"
    by blast
  then show ?thesis by (simp add: create_plot_def)
qed

lemma fit_InvalidInputError:
  "fit solve series = Inl InvalidInputError \<longleftrightarrow>
    series = [] \<or> length series < 3 \<or> (\<exists>v\<in>set (col_Value series). v \<le> 0)"
  by (auto simp: fit_def MIN_POINTS_def list_ex_iff split: option.splits)

text \<open>
  C9. The pipeline raises InvalidInputError exactly when the input price series is
  empty, has fewer than the three points a three-parameter fit needs, or contains a
  value \<open>\<le> 0\<close>. A series with a price of exactly 0 raises it, and an error of
  \<open>get_data\<close> is the result of \<open>main\<close>: it reaches the caller, nothing is called
  again.
\<close>

theorem invalid_input_error:
  "(main solve csv = Inl InvalidInputError \<longleftrightarrow>
      csv = [] \<or> length csv < 3 \<or> (\<exists>v\<in>set (col_Value csv). v \<le> 0))
   \<and> (\<forall>d. (d, 0) \<in> set csv \<longrightarrow> main solve csv = Inl InvalidInputError)
   \<and> (\<forall>e. get_data solve csv = Inl e \<longrightarrow> main solve csv = Inl e)"
proof -
  have passes: "main solve csv = Inl e" if "get_data solve csv = Inl e" for e
    using that by (simp add: main_def)
  have iff: "main solve csv = Inl InvalidInputError \<longleftrightarrow>
      csv = [] \<or> length csv < 3 \<or> (\<exists>v\<in>set (col_Value csv). v \<le> 0)"
  proof (cases "fit solve csv")
    case (Inl e)
    then have "main solve csv = Inl e"
      by (simp add: main_def get_data_def)
    then show ?thesis
      using Inl fit_InvalidInputError [of solve csv] by simp
  next
    case (Inr popt)
    then have valid: "\<not> (csv = [] \<or> length csv < 3 \<or> (\<exists>v\<in>set (col_Value csv). v \<le> 0))"
      using fit_InvalidInputError [of solve csv] by simp
    then have "csv \<noteq> []" by simp
    from create_plot_returns [OF this, of popt] obtain fig where
      "create_plot csv popt = Inr fig" by blast
    then have "main solve csv = Inr fig"
      using Inr by (simp add: main_def get_data_def)
    then show ?thesis using valid by simp
  qed
  have zero: "main solve csv = Inl InvalidInputError" if "(d, 0) \<in> set csv" for d
  proof -
    from that have "0 \<in> set (col_Value csv)"
      by (force simp: col_Value_def)
    then have "\<exists>v\<in>set (col_Value csv). v \<le> 0" by auto
    then show ?thesis using iff by simp
  qed
  from iff zero passes show ?thesis by blast
qed

theorem invalid_input_error_witness:
  "main (\<lambda>xs ys. Some (Fin 1, Fin 0, Fin 0)) [(0, 1), (1, 0), (2, 3)] = Inl InvalidInputError
   \<and> main (\<lambda>xs ys. Some (Fin 1, Fin 0, Fin 0)) [] = Inl InvalidInputError
   \<and> main (\<lambda>xs ys. Some (Fin 1, Fin 0, Fin 0)) [(0, 1), (1, 2)] = Inl InvalidInputError
   \<and> main (\<lambda>xs ys. Some (Fin 1, Fin 0, Fin 0)) [(0, 1), (1, 2), (2, 3)] \<noteq> Inl InvalidInputError"
proof -
  let ?s = "\<lambda>(xs::int list) (ys::real list). Some (Fin 1, Fin 0, Fin 0)"
  have "main ?s [(0, 1), (1, 0), (2, 3)] = Inl InvalidInputError"
    using invalid_input_error [of ?s "[(0, 1), (1, 0), (2, 3)]"] by simp
  moreover have "main ?s [] = Inl InvalidInputError"
    using invalid_input_error [of ?s "[]"] by simp
  moreover have "main ?s [(0, 1), (1, 2)] = Inl InvalidInputError"
    using invalid_input_error [of ?s "[(0, 1), (1, 2)]"] by simp
  moreover have "main ?s [(0, 1), (1, 2), (2, 3)] \<noteq> Inl InvalidInputError"
    using invalid_input_error [of ?s "[(0, 1), (1, 2), (2, 3)]"]
    by (simp add: col_Value_def)
  ultimately show ?thesis by blast
qed

end
